theory Spec2Isabelle
  imports Complex_Main "HOL-Library.AList"
begin

section \<open>Index fund replication calculator (\<^verbatim>\<open>src/main.py\<close>)\<close>

text \<open>
  The embedding follows \<^verbatim>\<open>calculate_weights_with_cap\<close>, \<^verbatim>\<open>calculate_shares\<close> and
  \<^verbatim>\<open>replicate_index_fund\<close> statement by statement, twice.

  \<^item> The exact embedding (\<open>calculate_weights_with_cap\<close>, \<open>calculate_shares\<close>) reads
    Python's \<^verbatim>\<open>float\<close> as \<^typ>\<open>real\<close>: no operation rounds. It says what the algorithm
    computes, and the statements proved of it are statements in exact arithmetic.
  \<^item> The rounding embedding (\<open>calculate_weights_with_cap_r\<close>, \<open>calculate_shares_r\<close>) is
    the same code with a rounding function \<open>rnd\<close> applied to the result of every
    arithmetic operation. With \<open>rnd = fl\<close>, rounding to the nearest binary64 number, it
    is the program as CPython runs it on values in the normal range of doubles; with the
    identity for \<open>rnd\<close> it is the exact embedding (lemmas \<open>calculate_weights_with_cap_exact\<close>
    and \<open>calculate_shares_exact\<close>). Infinities, NaN, subnormal numbers and overflow are not
    modelled.
  \<^item> A Python \<^verbatim>\<open>dict\<close> is an association list in insertion order with distinct keys:
    storing under a key that is present replaces the value in place, storing under a new
    key appends (\<^const>\<open>AList.update\<close>).
  \<^item> An equity is a record with the three keys the code reads, so the \<^verbatim>\<open>KeyError\<close>
    of a JSON object lacking one of them is outside the model.
  \<^item> Exceptions are values of type \<open>error\<close>; a function that may raise returns
    \<open>error + 'a\<close>.
\<close>

subsection \<open>Data\<close>

record equity =
  ticker :: string
  market_cap :: real
  price :: real

datatype error =
    TotalMarketCapZero        \<comment> \<open>\<^verbatim>\<open>ValueError("Total market cap is zero")\<close>\<close>
  | InvestmentNotPositive     \<comment> \<open>\<^verbatim>\<open>ValueError("Investment amount must be positive")\<close>\<close>
  | InvalidPrice string real  \<comment> \<open>\<^verbatim>\<open>ValueError(f"Invalid price for {ticker}: {price}")\<close>\<close>
  | FundDataEmpty             \<comment> \<open>\<^verbatim>\<open>ValueError("Fund data is empty")\<close>\<close>
  | KeyError string           \<comment> \<open>subscript of a dict with an absent key\<close>
  | ZeroDivisionError         \<comment> \<open>float division by zero\<close>

type_synonym 'v dict = "(string \<times> 'v) list"

text \<open>\<^verbatim>\<open>d[k]\<close>: the stored value, or \<^verbatim>\<open>KeyError\<close>.\<close>

definition dict_get :: "'v dict \<Rightarrow> string \<Rightarrow> error + 'v" where
  "dict_get d k = (case map_of d k of None \<Rightarrow> Inl (KeyError k) | Some v \<Rightarrow> Inr v)"

text \<open>A dict comprehension \<^verbatim>\<open>{k: v for ...}\<close>: the pairs are stored from left to right.\<close>

definition dict_of :: "(string \<times> 'v) list \<Rightarrow> 'v dict" where
  "dict_of kvs = fold (\<lambda>(k, v) d. AList.update k v d) kvs []"

text \<open>\<^verbatim>\<open>int(x)\<close> on a float truncates toward zero.\<close>

definition py_int :: "real \<Rightarrow> int" where
  "py_int x = (if 0 \<le> x then \<lfloor>x\<rfloor> else \<lceil>x\<rceil>)"

subsection \<open>\<^verbatim>\<open>calculate_weights_with_cap\<close>\<close>

text \<open>Line 49: \<^verbatim>\<open>sum(equity["market_cap"] for equity in equities)\<close>.\<close>

definition total_market_cap :: "equity list \<Rightarrow> real" where
  "total_market_cap equities = sum_list (map market_cap equities)"

text \<open>Lines 55-58: the dict of initial weights (reached only when the total is not zero).\<close>

definition initial_weights :: "equity list \<Rightarrow> real dict" where
  "initial_weights equities =
     dict_of (map (\<lambda>e. (ticker e, market_cap e / total_market_cap equities)) equities)"

text \<open>
  Lines 61-69: the first loop over \<^verbatim>\<open>initial_weights.items()\<close>. The state is the pair
  \<^verbatim>\<open>(capped_weights, excess_weight)\<close>.
\<close>

fun apply_cap :: "real dict \<Rightarrow> real \<Rightarrow> real dict \<times> real \<Rightarrow> real dict \<times> real" where
  "apply_cap [] cap_percentage (capped_weights, excess_weight) =
     (capped_weights, excess_weight)"
| "apply_cap ((t, weight) # items) cap_percentage (capped_weights, excess_weight) =
     (if weight > cap_percentage
      then apply_cap items cap_percentage
             (AList.update t cap_percentage capped_weights,
              excess_weight + (weight - cap_percentage))
      else apply_cap items cap_percentage
             (AList.update t weight capped_weights, excess_weight))"

text \<open>
  Lines 74-77: the list comprehension selecting the tickers that were not capped; its
  condition subscripts \<^verbatim>\<open>initial_weights\<close> again.
\<close>

fun non_capped :: "real dict \<Rightarrow> real dict \<Rightarrow> real \<Rightarrow> error + string list" where
  "non_capped iw [] cap_percentage = Inr []"
| "non_capped iw ((t, weight) # items) cap_percentage =
     (case dict_get iw t of
        Inl e \<Rightarrow> Inl e
      | Inr w \<Rightarrow>
          (case non_capped iw items cap_percentage of
             Inl e \<Rightarrow> Inl e
           | Inr ts \<Rightarrow> Inr (if w \<le> cap_percentage then t # ts else ts)))"

text \<open>Lines 81-83: \<^verbatim>\<open>sum(initial_weights[ticker] for ticker in non_capped_equities)\<close>.\<close>

fun sum_weights :: "real dict \<Rightarrow> string list \<Rightarrow> error + real" where
  "sum_weights iw [] = Inr 0"
| "sum_weights iw (t # ts) =
     (case dict_get iw t of
        Inl e \<Rightarrow> Inl e
      | Inr w \<Rightarrow> (case sum_weights iw ts of Inl e \<Rightarrow> Inl e | Inr s \<Rightarrow> Inr (w + s)))"

text \<open>Lines 87-93: the redistribution loop, updating \<^verbatim>\<open>capped_weights\<close> in place.\<close>

fun redistribute ::
  "string list \<Rightarrow> real dict \<Rightarrow> real \<Rightarrow> real \<Rightarrow> real \<Rightarrow> real dict \<Rightarrow> error + real dict" where
  "redistribute [] iw non_capped_total excess_weight cap_percentage capped_weights =
     Inr capped_weights"
| "redistribute (t # ts) iw non_capped_total excess_weight cap_percentage capped_weights =
     (case dict_get iw t of
        Inl e \<Rightarrow> Inl e
      | Inr w \<Rightarrow>
          (let redistribution_factor = w / non_capped_total
           in case dict_get capped_weights t of
                Inl e \<Rightarrow> Inl e
              | Inr c \<Rightarrow>
                  (let cw1 = AList.update t (c + excess_weight * redistribution_factor)
                               capped_weights
                   in case dict_get cw1 t of
                        Inl e \<Rightarrow> Inl e
                      | Inr c1 \<Rightarrow>
                          redistribute ts iw non_capped_total excess_weight cap_percentage
                            (AList.update t (min c1 cap_percentage) cw1))))"

definition calculate_weights_with_cap :: "equity list \<Rightarrow> real \<Rightarrow> error + real dict" where
  "calculate_weights_with_cap equities cap_percentage =
     (if total_market_cap equities = 0 then Inl TotalMarketCapZero
      else
        let iw = initial_weights equities;
            (capped_weights, excess_weight) = apply_cap iw cap_percentage ([], 0)
        in if excess_weight > 0 then
             (case non_capped iw iw cap_percentage of
                Inl e \<Rightarrow> Inl e
              | Inr non_capped_equities \<Rightarrow>
                  if non_capped_equities \<noteq> [] then
                    (case sum_weights iw non_capped_equities of
                       Inl e \<Rightarrow> Inl e
                     | Inr non_capped_total \<Rightarrow>
                         if non_capped_total > 0
                         then redistribute non_capped_equities iw non_capped_total
                                excess_weight cap_percentage capped_weights
                         else Inr capped_weights)
                  else Inr capped_weights)
           else Inr capped_weights)"

subsection \<open>\<^verbatim>\<open>calculate_shares\<close>\<close>

text \<open>Line 154: \<^verbatim>\<open>total_cost_excl_fees * transaction_cost_rate\<close>.\<close>

definition total_transaction_fees :: "real \<Rightarrow> real \<Rightarrow> real" where
  "total_transaction_fees total_cost_excl_fees transaction_cost_rate =
     total_cost_excl_fees * transaction_cost_rate"

text \<open>Line 122: \<^verbatim>\<open>{equity["ticker"]: equity for equity in equities}\<close>.\<close>

definition equity_dict :: "equity list \<Rightarrow> equity dict" where
  "equity_dict equities = dict_of (map (\<lambda>e. (ticker e, e)) equities)"

text \<open>
  Lines 131-151: the loop over \<^verbatim>\<open>weights.items()\<close>. The state is the pair
  \<^verbatim>\<open>(shares_per_ticker, total_cost_excl_fees)\<close>; a raise ends the loop with no state.
  \<open>ed\<close> is \<^verbatim>\<open>equity_dict\<close>.
\<close>

fun allocate ::
  "real dict \<Rightarrow> equity dict \<Rightarrow> real \<Rightarrow> real \<Rightarrow> int dict \<times> real \<Rightarrow> error + (int dict \<times> real)" where
  "allocate [] ed investment_amount transaction_cost_rate
     (shares_per_ticker, total_cost_excl_fees) = Inr (shares_per_ticker, total_cost_excl_fees)"
| "allocate ((t, weight) # items) ed investment_amount transaction_cost_rate
     (shares_per_ticker, total_cost_excl_fees) =
     (case dict_get ed t of
        Inl e \<Rightarrow> Inl e
      | Inr equity \<Rightarrow>
          if price equity \<le> 0 then Inl (InvalidPrice t (price equity))
          else
            let allocation = investment_amount * weight
            in if price equity * (1 + transaction_cost_rate) = 0 then Inl ZeroDivisionError
               else
                 let shares = py_int (allocation / (price equity * (1 + transaction_cost_rate)));
                     cost_excl_fees = of_int shares * price equity
                 in allocate items ed investment_amount transaction_cost_rate
                      (AList.update t shares shares_per_ticker,
                       total_cost_excl_fees + cost_excl_fees))"

text \<open>The result triple is \<^verbatim>\<open>(shares_per_ticker, total_cost_incl_fees, total_cost_excl_fees)\<close>.\<close>

definition calculate_shares ::
  "equity list \<Rightarrow> real \<Rightarrow> real \<Rightarrow> real \<Rightarrow> error + (int dict \<times> real \<times> real)" where
  "calculate_shares equities investment_amount transaction_cost_rate cap_percentage =
     (if investment_amount \<le> 0 then Inl InvestmentNotPositive
      else
        let ed = equity_dict equities
        in case calculate_weights_with_cap equities cap_percentage of
             Inl e \<Rightarrow> Inl e
           | Inr weights \<Rightarrow>
               (case allocate weights ed investment_amount transaction_cost_rate
                       ([], 0) of
                  Inl e \<Rightarrow> Inl e
                | Inr (shares_per_ticker, total_cost_excl_fees) \<Rightarrow>
                    let fees = total_transaction_fees total_cost_excl_fees
                                 transaction_cost_rate;
                        total_cost_incl_fees = total_cost_excl_fees + fees
                    in Inr (shares_per_ticker, total_cost_incl_fees, total_cost_excl_fees)))"

subsection \<open>\<^verbatim>\<open>replicate_index_fund\<close>\<close>

text \<open>
  Lines 183-189, after \<^verbatim>\<open>load_fund_data\<close> has returned the list \<open>equities\<close> (reading the
  file is outside the model).
\<close>

definition replicate_index_fund ::
  "equity list \<Rightarrow> real \<Rightarrow> real \<Rightarrow> real \<Rightarrow> error + (int dict \<times> real \<times> real)" where
  "replicate_index_fund equities investment_amount transaction_cost_rate cap_percentage =
     (if equities = [] then Inl FundDataEmpty
      else calculate_shares equities investment_amount transaction_cost_rate cap_percentage)"

subsection \<open>Closed forms of the loop results\<close>

text \<open>
  The values the loops compute, written without the loops: the excess accumulated at lines
  64-69, the sum of lines 81-83, the value stored for a ticker at lines 89-93, and the final
  weight of a ticker whose initial weight is \<open>w\<close>. The lemmas on the loops below show
  that the exact embedding computes exactly these.
\<close>

definition excess_of :: "real dict \<Rightarrow> real \<Rightarrow> real" where
  "excess_of iw cap = (\<Sum>(t, w)\<leftarrow>iw. if w > cap then w - cap else 0)"

definition under_total :: "real dict \<Rightarrow> real \<Rightarrow> real" where
  "under_total iw cap = (\<Sum>(t, w)\<leftarrow>iw. if w \<le> cap then w else 0)"

definition redistributed :: "real dict \<Rightarrow> real \<Rightarrow> real \<Rightarrow> real \<Rightarrow> string \<Rightarrow> real \<Rightarrow> real" where
  "redistributed ps nct ex cap t c =
     (case map_of ps t of None \<Rightarrow> c | Some w \<Rightarrow> min (c + ex * (w / nct)) cap)"

definition final_weight :: "real dict \<Rightarrow> real \<Rightarrow> real \<Rightarrow> real" where
  "final_weight iw cap w =
     (if w > cap then cap
      else if excess_of iw cap > 0 \<and> under_total iw cap > 0
           then min (w + excess_of iw cap * (w / under_total iw cap)) cap
           else w)"

text \<open>
  For the loop of \<^verbatim>\<open>calculate_shares\<close>: the price stored for a ticker in
  \<^verbatim>\<open>equity_dict\<close>, and the share count of lines 139 and 146 as one expression.
\<close>

definition price_of :: "equity dict \<Rightarrow> string \<Rightarrow> real" where
  "price_of ed t = (case map_of ed t of None \<Rightarrow> 0 | Some e \<Rightarrow> price e)"


subsection \<open>Rounding to binary64\<close>

text \<open>
  A binary64 number in the normal range is \<open>m * 2 ^ e\<close> with an integer \<open>m\<close> of at
  most 53 bits. \<open>fl x\<close> is the one nearest to \<open>x\<close>, the one with even \<open>m\<close> on a tie:
  what IEEE 754 prescribes for \<^verbatim>\<open>+\<close>, \<^verbatim>\<open>-\<close>, \<^verbatim>\<open>*\<close> and \<^verbatim>\<open>/\<close> on doubles, and what
  Python does when it reads a decimal literal, converts an \<^verbatim>\<open>int\<close> to \<^verbatim>\<open>float\<close> or
  divides two \<^verbatim>\<open>int\<close>s with \<^verbatim>\<open>/\<close>.
\<close>

text \<open>
  \<open>bit_length n\<close> is Python's \<^verbatim>\<open>n.bit_length()\<close> for \<open>n \<ge> 0\<close>; \<open>floor_log2 x\<close> is the
  integer \<open>e\<close> with \<open>2 ^ e \<le> x < 2 ^ (e + 1)\<close>, for \<open>x > 0\<close>.
\<close>

function bit_length :: "int \<Rightarrow> nat" where
  "bit_length n = (if n \<le> 0 then 0 else Suc (bit_length (n div 2)))"
  by pat_completeness auto
termination
  by (relation "measure nat") auto

declare bit_length.simps [simp del]

definition floor_log2 :: "real \<Rightarrow> int" where
  "floor_log2 x =
     (if 1 \<le> x then int (bit_length \<lfloor>x\<rfloor>) - 1
      else let k = bit_length \<lfloor>1 / x\<rfloor> - 1
           in if 1 / x = 2 ^ k then - int k else - int k - 1)"

text \<open>
  Rounding to the nearest integer, to the even one on a tie.
\<close>

definition round_half_even :: "real \<Rightarrow> int" where
  "round_half_even r =
     (let f = \<lfloor>r\<rfloor>; d = r - of_int f
      in if d < 1 / 2 then f else if 1 / 2 < d then f + 1 else if even f then f else f + 1)"

text \<open>
  The spacing of the doubles around \<open>x\<close> is \<open>ulp = 2 ^ (floor_log2 |x| - 52)\<close>.
\<close>

definition fl :: "real \<Rightarrow> real" where
  "fl x =
     (if x = 0 then 0
      else let e = floor_log2 \<bar>x\<bar> - 52;
               ulp = (if 0 \<le> e then 2 ^ nat e else 1 / 2 ^ nat (- e))
           in of_int (round_half_even (x / ulp)) * ulp)"

subsection \<open>The code with its rounding\<close>

text \<open>
  The definitions above once more, with \<open>rnd\<close> around every arithmetic operation, in
  the order in which Python evaluates them. Comparisons, \<^verbatim>\<open>min\<close> and \<^verbatim>\<open>int()\<close> do not
  round. \<^verbatim>\<open>sum\<close> starts from 0 and adds from left to right. (CPython from 3.12 on
  compensates the rounding errors of a sum of floats; the two ways of summing agree
  wherever every partial sum is a double, which is so at each input evaluated below.)
  A number that JSON delivers as \<^verbatim>\<open>int\<close> is taken as the double of the same value, which
  is exact below \<open>2 ^ 53\<close>.
\<close>

text \<open>
  Line 49.
\<close>

definition total_market_cap_r :: "(real \<Rightarrow> real) \<Rightarrow> equity list \<Rightarrow> real" where
  "total_market_cap_r rnd equities = foldl (\<lambda>s e. rnd (s + market_cap e)) 0 equities"

text \<open>
  Lines 55-58.
\<close>

definition initial_weights_r :: "(real \<Rightarrow> real) \<Rightarrow> equity list \<Rightarrow> real dict" where
  "initial_weights_r rnd equities =
     dict_of (map (\<lambda>e. (ticker e, rnd (market_cap e / total_market_cap_r rnd equities)))
                equities)"

text \<open>
  Lines 61-69; line 67 rounds the difference, then the sum.
\<close>

fun apply_cap_r ::
  "(real \<Rightarrow> real) \<Rightarrow> real dict \<Rightarrow> real \<Rightarrow> real dict \<times> real \<Rightarrow> real dict \<times> real" where
  "apply_cap_r rnd [] cap_percentage (capped_weights, excess_weight) =
     (capped_weights, excess_weight)"
| "apply_cap_r rnd ((t, weight) # items) cap_percentage (capped_weights, excess_weight) =
     (if weight > cap_percentage
      then apply_cap_r rnd items cap_percentage
             (AList.update t cap_percentage capped_weights,
              rnd (excess_weight + rnd (weight - cap_percentage)))
      else apply_cap_r rnd items cap_percentage
             (AList.update t weight capped_weights, excess_weight))"

text \<open>
  Lines 81-83, with the running sum as an argument. The list comprehension of lines
  74-77 does no arithmetic: it is \<open>non_capped\<close> as before.
\<close>

fun sum_weights_r :: "(real \<Rightarrow> real) \<Rightarrow> real dict \<Rightarrow> string list \<Rightarrow> real \<Rightarrow> error + real" where
  "sum_weights_r rnd iw [] s = Inr s"
| "sum_weights_r rnd iw (t # ts) s =
     (case dict_get iw t of
        Inl e \<Rightarrow> Inl e
      | Inr w \<Rightarrow> sum_weights_r rnd iw ts (rnd (s + w)))"

text \<open>
  Lines 87-93; line 88 rounds the quotient, line 89 the product and then the sum.
\<close>

fun redistribute_r ::
  "(real \<Rightarrow> real) \<Rightarrow> string list \<Rightarrow> real dict \<Rightarrow> real \<Rightarrow> real \<Rightarrow> real \<Rightarrow> real dict
     \<Rightarrow> error + real dict" where
  "redistribute_r rnd [] iw non_capped_total excess_weight cap_percentage capped_weights =
     Inr capped_weights"
| "redistribute_r rnd (t # ts) iw non_capped_total excess_weight cap_percentage capped_weights =
     (case dict_get iw t of
        Inl e \<Rightarrow> Inl e
      | Inr w \<Rightarrow>
          (let redistribution_factor = rnd (w / non_capped_total)
           in case dict_get capped_weights t of
                Inl e \<Rightarrow> Inl e
              | Inr c \<Rightarrow>
                  (let cw1 = AList.update t
                               (rnd (c + rnd (excess_weight * redistribution_factor)))
                               capped_weights
                   in case dict_get cw1 t of
                        Inl e \<Rightarrow> Inl e
                      | Inr c1 \<Rightarrow>
                          redistribute_r rnd ts iw non_capped_total excess_weight
                            cap_percentage (AList.update t (min c1 cap_percentage) cw1))))"

definition calculate_weights_with_cap_r ::
  "(real \<Rightarrow> real) \<Rightarrow> equity list \<Rightarrow> real \<Rightarrow> error + real dict" where
  "calculate_weights_with_cap_r rnd equities cap_percentage =
     (if total_market_cap_r rnd equities = 0 then Inl TotalMarketCapZero
      else
        let iw = initial_weights_r rnd equities;
            (capped_weights, excess_weight) = apply_cap_r rnd iw cap_percentage ([], 0)
        in if excess_weight > 0 then
             (case non_capped iw iw cap_percentage of
                Inl e \<Rightarrow> Inl e
              | Inr non_capped_equities \<Rightarrow>
                  if non_capped_equities \<noteq> [] then
                    (case sum_weights_r rnd iw non_capped_equities 0 of
                       Inl e \<Rightarrow> Inl e
                     | Inr non_capped_total \<Rightarrow>
                         if non_capped_total > 0
                         then redistribute_r rnd non_capped_equities iw non_capped_total
                                excess_weight cap_percentage capped_weights
                         else Inr capped_weights)
                  else Inr capped_weights)
           else Inr capped_weights)"

text \<open>
  Lines 131-151. Line 139 rounds the product; line 146 rounds \<^verbatim>\<open>1 + transaction_cost_rate\<close>,
  the product with the price and the quotient, and \<^verbatim>\<open>int()\<close> truncates the rounded
  quotient; line 150 converts the share count to a double and rounds the product; line
  151 rounds the sum.
\<close>

fun allocate_r ::
  "(real \<Rightarrow> real) \<Rightarrow> real dict \<Rightarrow> equity dict \<Rightarrow> real \<Rightarrow> real \<Rightarrow> int dict \<times> real
     \<Rightarrow> error + (int dict \<times> real)" where
  "allocate_r rnd [] ed investment_amount transaction_cost_rate
     (shares_per_ticker, total_cost_excl_fees) = Inr (shares_per_ticker, total_cost_excl_fees)"
| "allocate_r rnd ((t, weight) # items) ed investment_amount transaction_cost_rate
     (shares_per_ticker, total_cost_excl_fees) =
     (case dict_get ed t of
        Inl e \<Rightarrow> Inl e
      | Inr equity \<Rightarrow>
          if price equity \<le> 0 then Inl (InvalidPrice t (price equity))
          else
            let allocation = rnd (investment_amount * weight);
                divisor = rnd (price equity * rnd (1 + transaction_cost_rate))
            in if divisor = 0 then Inl ZeroDivisionError
               else
                 let shares = py_int (rnd (allocation / divisor));
                     cost_excl_fees = rnd (rnd (of_int shares) * price equity)
                 in allocate_r rnd items ed investment_amount transaction_cost_rate
                      (AList.update t shares shares_per_ticker,
                       rnd (total_cost_excl_fees + cost_excl_fees)))"

text \<open>
  Lines 118-157; lines 154 and 155 round the product and the sum.
\<close>

definition calculate_shares_r ::
  "(real \<Rightarrow> real) \<Rightarrow> equity list \<Rightarrow> real \<Rightarrow> real \<Rightarrow> real
     \<Rightarrow> error + (int dict \<times> real \<times> real)" where
  "calculate_shares_r rnd equities investment_amount transaction_cost_rate cap_percentage =
     (if investment_amount \<le> 0 then Inl InvestmentNotPositive
      else
        let ed = equity_dict equities
        in case calculate_weights_with_cap_r rnd equities cap_percentage of
             Inl e \<Rightarrow> Inl e
           | Inr weights \<Rightarrow>
               (case allocate_r rnd weights ed investment_amount transaction_cost_rate
                       ([], 0) of
                  Inl e \<Rightarrow> Inl e
                | Inr (shares_per_ticker, total_cost_excl_fees) \<Rightarrow>
                    let fees = rnd (total_cost_excl_fees * transaction_cost_rate);
                        total_cost_incl_fees = rnd (total_cost_excl_fees + fees)
                    in Inr (shares_per_ticker, total_cost_incl_fees, total_cost_excl_fees)))"

section \<open>Dictionaries\<close>

lemma update_fresh: "k \<notin> fst ` set al \<Longrightarrow> AList.update k v al = al @ [(k, v)]"
  by (induction al) auto

lemma fold_update_keys:
  "fst ` set (fold (\<lambda>(k, v) d. AList.update k v d) kvs acc) = fst ` set kvs \<union> fst ` set acc"
proof (induction kvs arbitrary: acc)
  case Nil
  then show ?case by simp
next
  case (Cons p kvs)
  obtain k v where p: "p = (k, v)" by (cases p)
  have "fst ` set (fold (\<lambda>(k, v) d. AList.update k v d) kvs (AList.update k v acc))
          = fst ` set kvs \<union> fst ` set (AList.update k v acc)"
    by (rule Cons.IH)
  then show ?case by (simp add: p AList.dom_update Un_ac)
qed

lemma fold_update_distinct:
  "distinct (map fst acc) \<Longrightarrow> distinct (map fst (fold (\<lambda>(k, v) d. AList.update k v d) kvs acc))"
  by (induction kvs arbitrary: acc) (auto simp: AList.distinct_update)

lemma fold_update_fresh:
  "distinct (map fst kvs) \<Longrightarrow> fst ` set kvs \<inter> fst ` set acc = {} \<Longrightarrow>
   fold (\<lambda>(k, v) d. AList.update k v d) kvs acc = acc @ kvs"
proof (induction kvs arbitrary: acc)
  case Nil
  then show ?case by simp
next
  case (Cons p kvs)
  obtain k v where p: "p = (k, v)" by (cases p)
  from Cons.prems have fresh: "k \<notin> fst ` set acc" by (auto simp: p)
  have "fst ` set kvs \<inter> fst ` set (acc @ [(k, v)]) = {}"
    using Cons.prems by (auto simp: p)
  moreover have "distinct (map fst kvs)" using Cons.prems by simp
  ultimately have "fold (\<lambda>(k, v) d. AList.update k v d) kvs (acc @ [(k, v)]) = (acc @ [(k, v)]) @ kvs"
    by (rule Cons.IH[rotated])
  then show ?case by (simp add: p update_fresh[OF fresh])
qed

lemma dict_of_keys: "fst ` set (dict_of kvs) = fst ` set kvs"
  by (simp add: dict_of_def fold_update_keys)

lemma dict_of_distinct: "distinct (map fst (dict_of kvs))"
  by (simp add: dict_of_def fold_update_distinct)

lemma dict_of_id: "distinct (map fst kvs) \<Longrightarrow> dict_of kvs = kvs"
  by (simp add: dict_of_def fold_update_fresh)

lemma dict_get_member:
  "distinct (map fst d) \<Longrightarrow> (k, v) \<in> set d \<Longrightarrow> dict_get d k = Inr v"
  by (simp add: dict_get_def)

lemma dict_eqI:
  "map fst xs = map fst ys \<Longrightarrow> distinct (map fst xs) \<Longrightarrow> map_of xs = map_of ys \<Longrightarrow> xs = ys"
proof (induction xs arbitrary: ys)
  case Nil
  then show ?case by simp
next
  case (Cons x xs)
  then obtain y ys' where ys: "ys = y # ys'" by (cases ys) auto
  obtain k v where x: "x = (k, v)" by (cases x)
  obtain k' v' where y: "y = (k', v')" by (cases y)
  from Cons.prems ys x y have kk: "k' = k" and keys: "map fst xs = map fst ys'" by auto
  have "map_of (x # xs) k = map_of ys k" by (simp only: Cons.prems(3))
  then have vv: "v' = v" by (simp add: ys x y kk)
  have "map_of xs = map_of ys'"
  proof
    fix a
    show "map_of xs a = map_of ys' a"
    proof (cases "a = k")
      case True
      have "k \<notin> set (map fst xs)" using Cons.prems(2) by (simp add: x)
      then have "map_of xs k = None" by (simp add: map_of_eq_None_iff)
      moreover have "k \<notin> set (map fst ys')" using \<open>k \<notin> set (map fst xs)\<close> keys by simp
      then have "map_of ys' k = None" by (simp add: map_of_eq_None_iff)
      ultimately show ?thesis using True by simp
    next
      case False
      have "map_of (x # xs) a = map_of ys a" by (simp only: Cons.prems(3))
      then show ?thesis using False by (simp add: ys x y kk)
    qed
  qed
  with Cons.IH[OF keys] Cons.prems(2) have "xs = ys'" by simp
  then show ?case by (simp add: ys x y kk vv)
qed

section \<open>The loops of \<^verbatim>\<open>calculate_weights_with_cap\<close>\<close>

lemma apply_cap_eq:
  "distinct (map fst items) \<Longrightarrow> fst ` set items \<inter> fst ` set cw = {} \<Longrightarrow>
   apply_cap items cap (cw, ex) =
     (cw @ map (\<lambda>(t, w). (t, if w > cap then cap else w)) items, ex + excess_of items cap)"
proof (induction items arbitrary: cw ex)
  case Nil
  then show ?case by (simp add: excess_of_def)
next
  case (Cons p items)
  obtain t w where p: "p = (t, w)" by (cases p)
  from Cons.prems have fresh: "t \<notin> fst ` set cw" by (auto simp: p)
  have d: "distinct (map fst items)" using Cons.prems by simp
  have disj: "fst ` set items \<inter> fst ` set (cw @ [(t, v)]) = {}" for v
    using Cons.prems by (auto simp: p)
  show ?case
    by (simp add: p update_fresh[OF fresh] Cons.IH[OF d disj] excess_of_def)
qed

lemma non_capped_eq:
  "distinct (map fst iw) \<Longrightarrow> set items \<subseteq> set iw \<Longrightarrow>
   non_capped iw items cap = Inr (map fst (filter (\<lambda>(t, w). w \<le> cap) items))"
  by (induction items) (auto simp: dict_get_member)

lemma sum_weights_eq:
  "distinct (map fst iw) \<Longrightarrow> set ps \<subseteq> set iw \<Longrightarrow>
   sum_weights iw (map fst ps) = Inr (sum_list (map snd ps))"
  by (induction ps) (auto simp: dict_get_member)

lemma sum_filter_under: "sum_list (map snd (filter (\<lambda>(t, w). w \<le> cap) iw)) = under_total iw cap"
  by (induction iw) (auto simp: under_total_def)

lemma excess_of_nonneg: "0 \<le> excess_of iw cap"
  unfolding excess_of_def by (induction iw) auto

lemma excess_of_pos_iff: "0 < excess_of iw cap \<longleftrightarrow> (\<exists>(t, w)\<in>set iw. cap < w)"
proof (induction iw)
  case Nil
  then show ?case by (simp add: excess_of_def)
next
  case (Cons p iw)
  obtain t w where p: "p = (t, w)" by (cases p)
  have e: "excess_of ((t, w) # iw) cap = (if w > cap then w - cap else 0) + excess_of iw cap"
    by (simp add: excess_of_def)
  have "0 < excess_of ((t, w) # iw) cap \<longleftrightarrow> cap < w \<or> 0 < excess_of iw cap"
    using excess_of_nonneg[of iw cap] by (simp add: e)
  then show ?case using Cons.IH by (simp add: p)
qed

lemma map_of_map_val:
  "map_of (map (\<lambda>(k, v). (k, f k v)) xs) k = map_option (f k) (map_of xs k)"
  by (induction xs) auto

lemma map_fst_map_val: "map fst (map (\<lambda>(k, v). (k, f k v)) xs) = map fst xs"
  by (induction xs) auto

lemma update_present_keys: "k \<in> fst ` set al \<Longrightarrow> map fst (AList.update k v al) = map fst al"
  by (simp add: AList.update_keys)

lemma redistribute_eq:
  assumes "distinct (map fst iw)" "set ps \<subseteq> set iw" "distinct (map fst ps)"
    "fst ` set ps \<subseteq> fst ` set cw" "distinct (map fst cw)"
  shows "redistribute (map fst ps) iw nct ex cap cw =
           Inr (map (\<lambda>(t, c). (t, redistributed ps nct ex cap t c)) cw)"
  using assms(2-5)
proof (induction ps arbitrary: cw)
  case Nil
  have "map (\<lambda>(t, c). (t, redistributed [] nct ex cap t c)) cw = cw"
    by (induction cw) (auto simp: redistributed_def)
  then show ?case by simp
next
  case (Cons p ps)
  obtain t w where p: "p = (t, w)" by (cases p)
  have iwt: "dict_get iw t = Inr w"
    using assms(1) Cons.prems(1) by (simp add: p dict_get_member)
  have tin: "t \<in> fst ` set cw" using Cons.prems(3) by (simp add: p)
  then obtain c where c: "map_of cw t = Some c"
    by (metis domD dom_map_of_conv_image_fst)
  define v where "v = c + ex * (w / nct)"
  define cw2 where "cw2 = AList.update t (min v cap) cw"
  have keys2: "map fst cw2 = map fst cw"
    unfolding cw2_def by (rule update_present_keys[OF tin])
  have tps: "map_of ps t = None"
    using Cons.prems(2) by (simp add: p map_of_eq_None_iff)
  have IH: "redistribute (map fst ps) iw nct ex cap cw2 =
              Inr (map (\<lambda>(t, c). (t, redistributed ps nct ex cap t c)) cw2)"
  proof (rule Cons.IH)
    show "set ps \<subseteq> set iw" using Cons.prems(1) by simp
    show "distinct (map fst ps)" using Cons.prems(2) by simp
    have "set (map fst cw2) = set (map fst cw)" by (simp only: keys2)
    then show "fst ` set ps \<subseteq> fst ` set cw2" using Cons.prems(3) by auto
    show "distinct (map fst cw2)" using Cons.prems(4) by (simp only: keys2)
  qed
  have cwt: "dict_get cw t = Inr c" by (simp add: dict_get_def c)
  have cw1t: "dict_get (AList.update t v cw) t = Inr v"
    by (simp add: dict_get_def AList.update_conv')
  have step: "redistribute (map fst (p # ps)) iw nct ex cap cw =
                redistribute (map fst ps) iw nct ex cap cw2"
    using cw1t by (simp add: p iwt cwt v_def cw2_def)
  have "map (\<lambda>(t, c). (t, redistributed ps nct ex cap t c)) cw2 =
        map (\<lambda>(t', c). (t', redistributed ((t, w) # ps) nct ex cap t' c)) cw"
  proof (rule dict_eqI)
    show "map fst (map (\<lambda>(t, c). (t, redistributed ps nct ex cap t c)) cw2) =
          map fst (map (\<lambda>(t', c). (t', redistributed ((t, w) # ps) nct ex cap t' c)) cw)"
      by (simp only: map_fst_map_val keys2)
    show "distinct (map fst (map (\<lambda>(t, c). (t, redistributed ps nct ex cap t c)) cw2))"
      using Cons.prems(4) by (simp only: map_fst_map_val keys2)
    show "map_of (map (\<lambda>(t, c). (t, redistributed ps nct ex cap t c)) cw2) =
          map_of (map (\<lambda>(t', c). (t', redistributed ((t, w) # ps) nct ex cap t' c)) cw)"
    proof
      fix k
      show "map_of (map (\<lambda>(t, c). (t, redistributed ps nct ex cap t c)) cw2) k =
            map_of (map (\<lambda>(t', c). (t', redistributed ((t, w) # ps) nct ex cap t' c)) cw) k"
        by (cases "k = t")
           (simp_all add: map_of_map_val cw2_def AList.update_conv' c tps redistributed_def v_def)
    qed
  qed
  then have "redistribute (map fst (p # ps)) iw nct ex cap cw =
      Inr (map (\<lambda>(t', c). (t', redistributed ((t, w) # ps) nct ex cap t' c)) cw)"
    by (simp only: step IH)
  then show ?case by (simp only: p)
qed

lemma map_of_filter_distinct:
  assumes "distinct (map fst xs)" "(t, w) \<in> set xs"
  shows "map_of (filter P xs) t = (if P (t, w) then Some w else None)"
proof (cases "P (t, w)")
  case True
  have "distinct (map fst (filter P xs))" using assms(1) by (rule distinct_map_filter)
  moreover have "(t, w) \<in> set (filter P xs)" using assms(2) True by simp
  ultimately show ?thesis using True by simp
next
  case False
  have "t \<notin> fst ` set (filter P xs)"
  proof
    assume "t \<in> fst ` set (filter P xs)"
    then obtain w' where w': "(t, w') \<in> set xs" "P (t, w')" by auto
    with assms have "w' = w" by (meson eq_key_imp_eq_value)
    with w' False show False by simp
  qed
  then show ?thesis using False by (simp add: map_of_eq_None_iff)
qed

lemma initial_weights_distinct: "distinct (map fst (initial_weights equities))"
  by (simp add: initial_weights_def dict_of_distinct)

lemma calculate_weights_with_cap_eq:
  assumes "total_market_cap equities \<noteq> 0"
  shows "calculate_weights_with_cap equities cap =
           Inr (map (\<lambda>(t, w). (t, final_weight (initial_weights equities) cap w))
                  (initial_weights equities))"
proof -
  define iw where "iw = initial_weights equities"
  define under where "under = filter (\<lambda>(t, w). w \<le> cap) iw"
  define cw where "cw = map (\<lambda>(t, w). (t, if w > cap then cap else w)) iw"
  have d: "distinct (map fst iw)" unfolding iw_def by (rule initial_weights_distinct)
  have ac: "apply_cap iw cap ([], 0) = (cw, excess_of iw cap)"
    using apply_cap_eq[OF d, of "[]" cap 0] by (simp add: cw_def)
  have nc: "non_capped iw iw cap = Inr (map fst under)"
    unfolding under_def by (rule non_capped_eq[OF d subset_refl])
  have sw: "sum_weights iw (map fst under) = Inr (under_total iw cap)"
    using sum_weights_eq[OF d, of under] by (simp add: under_def sum_filter_under)
  have keys_cw: "map fst cw = map fst iw" unfolding cw_def by (rule map_fst_map_val)
  have rd: "redistribute (map fst under) iw nct ex cap cw =
              Inr (map (\<lambda>(t, c). (t, redistributed under nct ex cap t c)) cw)" for nct ex
  proof (rule redistribute_eq[OF d])
    show "set under \<subseteq> set iw" by (auto simp: under_def)
    show "distinct (map fst under)" unfolding under_def using d by (rule distinct_map_filter)
    have "fst ` set under \<subseteq> set (map fst iw)" by (auto simp: under_def)
    then show "fst ` set under \<subseteq> fst ` set cw" by (simp only: keys_cw[symmetric] set_map)
    show "distinct (map fst cw)" using d by (simp only: keys_cw)
  qed
  have under_empty: "under = [] \<Longrightarrow> under_total iw cap = 0"
    using sum_filter_under[of cap iw] by (simp add: under_def)
  have plain: "cw = map (\<lambda>(t, w). (t, final_weight iw cap w)) iw"
    if "\<not> (0 < excess_of iw cap \<and> 0 < under_total iw cap)"
    using that by (auto simp: cw_def final_weight_def)
  have redis: "map (\<lambda>(t, c). (t, redistributed under (under_total iw cap) (excess_of iw cap) cap t c)) cw
                 = map (\<lambda>(t, w). (t, final_weight iw cap w)) iw"
    if "0 < excess_of iw cap" "0 < under_total iw cap"
  proof -
    have "redistributed under (under_total iw cap) (excess_of iw cap) cap t (if w > cap then cap else w)
            = final_weight iw cap w" if "(t, w) \<in> set iw" for t w
      using map_of_filter_distinct[OF d that, of "\<lambda>(t, w). w \<le> cap"] \<open>0 < excess_of iw cap\<close>
        \<open>0 < under_total iw cap\<close>
      by (simp add: redistributed_def under_def final_weight_def)
    then show ?thesis by (auto simp: cw_def)
  qed
  show ?thesis
  proof (cases "0 < excess_of iw cap \<and> 0 < under_total iw cap")
    case True
    then have "under \<noteq> []" using under_empty by auto
    then show ?thesis
      using assms True redis
      by (simp add: calculate_weights_with_cap_def iw_def[symmetric] ac nc sw rd)
  next
    case False
    then show ?thesis
      using assms plain under_empty
      by (auto simp: calculate_weights_with_cap_def iw_def[symmetric] ac nc sw rd)
  qed
qed

section \<open>The weights in closed form\<close>

lemma set_update_subset: "set (AList.update k v al) \<subseteq> insert (k, v) (set al)"
  by (induction al) auto

lemma set_fold_update_subset:
  "set (fold (\<lambda>(k, v) d. AList.update k v d) kvs acc) \<subseteq> set kvs \<union> set acc"
proof (induction kvs arbitrary: acc)
  case Nil
  then show ?case by simp
next
  case (Cons p kvs)
  obtain k v where p: "p = (k, v)" by (cases p)
  have "set (fold (\<lambda>(k, v) d. AList.update k v d) kvs (AList.update k v acc))
          \<subseteq> set kvs \<union> set (AList.update k v acc)"
    by (rule Cons.IH)
  also have "\<dots> \<subseteq> set kvs \<union> insert (k, v) (set acc)"
    using set_update_subset[of k v acc] by auto
  finally show ?case by (auto simp: p)
qed

lemma set_dict_of_subset: "set (dict_of kvs) \<subseteq> set kvs"
  using set_fold_update_subset[of kvs "[]"] by (simp add: dict_of_def)

lemma initial_weights_keys: "fst ` set (initial_weights equities) = ticker ` set equities"
  by (simp add: initial_weights_def dict_of_keys image_image)

lemma initial_weights_nonneg:
  assumes "\<forall>e\<in>set equities. 0 \<le> market_cap e" "0 < total_market_cap equities"
    "(t, w) \<in> set (initial_weights equities)"
  shows "0 \<le> w"
proof -
  from assms(3) set_dict_of_subset
  have "(t, w) \<in> set (map (\<lambda>e. (ticker e, market_cap e / total_market_cap equities)) equities)"
    unfolding initial_weights_def by blast
  then obtain e where "e \<in> set equities" "w = market_cap e / total_market_cap equities"
    by auto
  with assms(1,2) show ?thesis by simp
qed



lemma sum_weights_ratio:
  fixes T :: real
  shows "sum_list (map (\<lambda>e. market_cap e / T) equities) = sum_list (map market_cap equities) / T"
  by (induction equities) (simp_all add: add_divide_distrib)


lemma initial_weights_sum_eq:
  assumes "distinct (map ticker equities)" "total_market_cap equities \<noteq> 0"
  shows "sum_list (map snd (initial_weights equities)) = 1"
proof -
  let ?kvs = "map (\<lambda>e. (ticker e, market_cap e / total_market_cap equities)) equities"
  have "distinct (map fst ?kvs)" using assms(1) by (simp add: comp_def)
  then have "initial_weights equities = ?kvs" by (simp add: initial_weights_def dict_of_id)
  then show ?thesis
    using assms(2) sum_weights_ratio[of "total_market_cap equities" equities]
    by (simp add: comp_def total_market_cap_def)
qed


lemma sum_list_pair_cong:
  fixes f g :: "'a \<Rightarrow> real \<Rightarrow> real"
  assumes "\<And>t w. (t, w) \<in> set xs \<Longrightarrow> f t w = g t w"
  shows "(\<Sum>(t, w)\<leftarrow>xs. f t w) = (\<Sum>(t, w)\<leftarrow>xs. g t w)"
  using assms by (intro arg_cong[where f = sum_list] map_cong) auto

lemma sum_capped_affine:
  "(\<Sum>(t, w)\<leftarrow>iw. if w > cap then cap else w + k * w)
     = sum_list (map snd iw) - excess_of iw cap + k * under_total iw cap"
  by (induction iw) (auto simp: excess_of_def under_total_def algebra_simps)

lemma sum_capped_plain:
  "(\<Sum>(t, w)\<leftarrow>iw. if w > cap then cap else w) = sum_list (map snd iw) - excess_of iw cap"
  by (induction iw) (auto simp: excess_of_def algebra_simps)

lemma sum_redistributed:
  assumes "0 < under_total iw cap"
  shows "(\<Sum>(t, w)\<leftarrow>iw. if w > cap then cap
                         else w + excess_of iw cap * (w / under_total iw cap))
           = sum_list (map snd iw)"
proof -
  have "(\<Sum>(t, w)\<leftarrow>iw. if w > cap then cap
                         else w + excess_of iw cap * (w / under_total iw cap))
        = (\<Sum>(t, w)\<leftarrow>iw. if w > cap then cap
                         else w + (excess_of iw cap / under_total iw cap) * w)"
    by (rule sum_list_pair_cong) simp
  also have "\<dots> = sum_list (map snd iw) - excess_of iw cap
                    + (excess_of iw cap / under_total iw cap) * under_total iw cap"
    by (rule sum_capped_affine)
  also have "\<dots> = sum_list (map snd iw)" using assms by simp
  finally show ?thesis .
qed


lemma sum_final_weight_eq:
  assumes noclamp: "\<And>t w. (t, w) \<in> set iw \<Longrightarrow> w \<le> cap \<Longrightarrow>
                      w + excess_of iw cap * (w / under_total iw cap) \<le> cap"
    and under: "0 < excess_of iw cap \<Longrightarrow> 0 < under_total iw cap"
  shows "(\<Sum>(t, w)\<leftarrow>iw. final_weight iw cap w) = sum_list (map snd iw)"
proof (cases "0 < excess_of iw cap")
  case True
  then have ut: "0 < under_total iw cap" by (rule under)
  have "(\<Sum>(t, w)\<leftarrow>iw. final_weight iw cap w)
          = (\<Sum>(t, w)\<leftarrow>iw. if w > cap then cap
                              else w + excess_of iw cap * (w / under_total iw cap))"
    using True ut noclamp by (intro sum_list_pair_cong) (auto simp: final_weight_def)
  also have "\<dots> = sum_list (map snd iw)" using ut by (rule sum_redistributed)
  finally show ?thesis .
next
  case False
  then have ex: "excess_of iw cap = 0" using excess_of_nonneg[of iw cap] by simp
  have "(\<Sum>(t, w)\<leftarrow>iw. final_weight iw cap w) = (\<Sum>(t, w)\<leftarrow>iw. if w > cap then cap else w)"
    using False by (intro sum_list_pair_cong) (auto simp: final_weight_def)
  also have "\<dots> = sum_list (map snd iw)" by (simp add: sum_capped_plain ex)
  finally show ?thesis .
qed

lemma final_weight_range:
  assumes "0 \<le> w" "0 \<le> cap"
  shows "0 \<le> final_weight iw cap w \<and> final_weight iw cap w \<le> cap"
  using assms by (auto simp: final_weight_def)

lemma sum_map_final:
  "sum_list (map snd (map (\<lambda>(t, w). (t, f w)) iw)) = (\<Sum>(t, w)\<leftarrow>iw. f w)"
  by (induction iw) auto

lemma dict_get_map_val:
  assumes "distinct (map fst iw)" "(t, w) \<in> set iw"
  shows "dict_get (map (\<lambda>(t, w). (t, f w)) iw) t = Inr (f w)"
proof -
  have "map_of iw t = Some w" using assms by simp
  then show ?thesis by (simp add: dict_get_def map_of_map_val)
qed

lemma final_weight_ge:
  assumes "0 \<le> w" "w \<le> cap"
  shows "w \<le> final_weight iw cap w"
  using assms by (auto simp: final_weight_def)

lemma final_weight_over: "cap < w \<Longrightarrow> final_weight iw cap w = cap"
  by (simp add: final_weight_def)

section \<open>The loop of \<^verbatim>\<open>calculate_shares\<close>\<close>



lemma allocate_invalid_price:
  assumes "\<forall>(t, w)\<in>set ws. \<exists>e. map_of ed t = Some e" "1 + rate \<noteq> 0"
    "find (\<lambda>(t, w). price_of ed t \<le> 0) ws = Some (t, w)"
  shows "allocate ws ed amount rate acc = Inl (InvalidPrice t (price_of ed t))"
  using assms(1,3)
proof (induction ws arbitrary: acc)
  case Nil
  then show ?case by simp
next
  case (Cons p ws)
  obtain t' w' where p: "p = (t', w')" by (cases p)
  obtain spt tot where acc: "acc = (spt, tot)" by (cases acc)
  from Cons.prems(1) obtain e where e: "map_of ed t' = Some e" by (auto simp: p)
  have pr: "price_of ed t' = price e" by (simp add: price_of_def e)
  show ?case
  proof (cases "price e \<le> 0")
    case True
    then have "(t, w) = (t', w')" using Cons.prems(2) by (simp add: p pr)
    then show ?thesis using True by (simp add: p acc dict_get_def e pr)
  next
    case False
    then have f: "find (\<lambda>(t, w). price_of ed t \<le> 0) ws = Some (t, w)"
      using Cons.prems(2) by (simp add: p pr)
    have rest: "\<forall>(t, w)\<in>set ws. \<exists>e. map_of ed t = Some e" using Cons.prems(1) by simp
    have nz: "price e * (1 + rate) \<noteq> 0" using False assms(2) by simp
    show ?thesis
      using False nz Cons.IH[OF rest f] by (simp add: p acc dict_get_def e Let_def)
  qed
qed

lemma equity_dict_keys: "fst ` set (equity_dict equities) = ticker ` set equities"
  by (simp add: equity_dict_def dict_of_keys image_image)


lemma equity_dict_present:
  assumes "t \<in> ticker ` set equities"
  shows "\<exists>e. map_of (equity_dict equities) t = Some e"
proof -
  have "t \<in> fst ` set (equity_dict equities)" using assms by (simp only: equity_dict_keys)
  then show ?thesis by (metis domD dom_map_of_conv_image_fst)
qed

lemma weights_keys:
  assumes "calculate_weights_with_cap equities cap = Inr weights"
  shows "map fst weights = map fst (initial_weights equities)"
proof -
  have "total_market_cap equities \<noteq> 0"
    using assms by (auto simp: calculate_weights_with_cap_def)
  then show ?thesis
    using assms by (auto simp: calculate_weights_with_cap_eq map_fst_map_val)
qed


lemma weights_present:
  assumes "calculate_weights_with_cap equities cap = Inr weights" "(t, w) \<in> set weights"
  shows "\<exists>e. map_of (equity_dict equities) t = Some e"
proof -
  have "t \<in> set (map fst weights)" using assms(2) by force
  then have "t \<in> fst ` set (initial_weights equities)"
    by (simp only: weights_keys[OF assms(1)] set_map)
  then show ?thesis by (simp only: initial_weights_keys equity_dict_present)
qed












lemma find_Some_member: "find P xs = Some x \<Longrightarrow> x \<in> set xs \<and> P x"
  by (induction xs) (auto split: if_splits)

section \<open>Rounding removed: the exact embedding\<close>

lemma foldl_sum: "foldl (\<lambda>s e. s + f e) a xs = a + sum_list (map f xs)"
  for a :: real
  by (induction xs arbitrary: a) (simp_all add: add.assoc)

lemma total_market_cap_exact: "total_market_cap_r (\<lambda>x. x) equities = total_market_cap equities"
  by (simp add: total_market_cap_r_def total_market_cap_def foldl_sum)

lemma initial_weights_exact: "initial_weights_r (\<lambda>x. x) equities = initial_weights equities"
  by (simp add: initial_weights_r_def initial_weights_def total_market_cap_exact)

lemma apply_cap_exact: "apply_cap_r (\<lambda>x. x) items cap acc = apply_cap items cap acc"
  by (induction items cap acc rule: apply_cap.induct) simp_all

lemma sum_weights_exact_aux:
  "sum_weights_r (\<lambda>x. x) iw ts s =
     (case sum_weights iw ts of Inl e \<Rightarrow> Inl e | Inr v \<Rightarrow> Inr (s + v))"
  by (induction ts arbitrary: s) (auto split: sum.splits)

lemma sum_weights_exact: "sum_weights_r (\<lambda>x. x) iw ts 0 = sum_weights iw ts"
  by (simp add: sum_weights_exact_aux split: sum.splits)

lemma redistribute_exact:
  "redistribute_r (\<lambda>x. x) ts iw nct ex cap cw = redistribute ts iw nct ex cap cw"
  by (induction ts arbitrary: cw) (auto simp: Let_def split: sum.splits)

lemma calculate_weights_with_cap_exact:
  "calculate_weights_with_cap_r (\<lambda>x. x) equities cap = calculate_weights_with_cap equities cap"
  unfolding calculate_weights_with_cap_r_def calculate_weights_with_cap_def
    total_market_cap_exact initial_weights_exact apply_cap_exact sum_weights_exact
    redistribute_exact
  by (rule refl)

lemma allocate_exact:
  "allocate_r (\<lambda>x. x) ws ed amount rate acc = allocate ws ed amount rate acc"
  by (induction ws ed amount rate acc rule: allocate.induct) (auto split: sum.splits)

lemma calculate_shares_exact:
  "calculate_shares_r (\<lambda>x. x) equities amount rate cap = calculate_shares equities amount rate cap"
  unfolding calculate_shares_r_def calculate_shares_def calculate_weights_with_cap_exact
    allocate_exact total_transaction_fees_def
  by (rule refl)

section \<open>Evaluation in binary64\<close>

lemmas fl_eval = fl_def floor_log2_def round_half_even_def Let_def bit_length.simps

text \<open>
  Two well-known doubles as a check of \<open>fl\<close>: \<^verbatim>\<open>0.1\<close> is \<open>0x1.999999999999ap-4\<close> and
  \<^verbatim>\<open>1/3\<close> is \<open>0x1.5555555555555p-2\<close>; and \<open>2 ^ 53 + 1\<close>, a tie, rounds to even.
\<close>

lemma fl_tenth: "fl (1 / 10) = 3602879701896397 / 2 ^ 55"
  by (simp add: fl_eval)

lemma fl_third: "fl (1 / 3) = 6004799503160661 / 2 ^ 54"
  by (simp add: fl_eval)

lemma fl_tie: "fl (2 ^ 53 + 1) = 2 ^ 53"
  by (simp add: fl_eval)



























lemma fl_cap: "fl (15 / 100) = 5404319552844595 / 36028797018963968"
  by (simp add: fl_eval)




section \<open>The properties of the specification\<close>

subsection \<open>Concrete scenario\<close>

text \<open>
  Claim C4. For the single equity \<open>X\<close> with market capitalisation 100 and price 20, cap
  0.5, budget 1000 and fee rate 0.03, the weight of \<open>X\<close> is 0.5, 24 shares are bought,
  the cost excluding fees is 480, the fees are 14.4 and the cost including fees is 494.4.
\<close>

theorem scenario_single_equity:
  "calculate_weights_with_cap [\<lparr>ticker = ''X'', market_cap = 100, price = 20\<rparr>] (1/2)
     = Inr [(''X'', 1/2)]
   \<and> calculate_shares [\<lparr>ticker = ''X'', market_cap = 100, price = 20\<rparr>] 1000 (3/100) (1/2)
     = Inr ([(''X'', 24)], 494.4, 480)
   \<and> total_transaction_fees 480 (3/100) = 14.4"
  by (simp add: calculate_shares_def calculate_weights_with_cap_def total_market_cap_def
      initial_weights_def equity_dict_def dict_of_def dict_get_def py_int_def
      total_transaction_fees_def)

subsection \<open>Errors of \<^verbatim>\<open>calculate_weights_with_cap\<close>\<close>

text \<open>
  Claim C7, as stated, fails: a cap outside \<open>(0, 1]\<close> and a negative total market
  capitalisation raise nothing.
\<close>

theorem invalid_cap_raises_nothing:
  "calculate_weights_with_cap [\<lparr>ticker = ''X'', market_cap = 100, price = 20\<rparr>] 2
     = Inr [(''X'', 1)]
   \<and> calculate_weights_with_cap [\<lparr>ticker = ''X'', market_cap = - 100, price = 20\<rparr>] (1/2)
     = Inr [(''X'', 1/2)]"
  by (simp add: calculate_weights_with_cap_def total_market_cap_def
      initial_weights_def dict_of_def dict_get_def)

text \<open>
  Claim C7, amended. \<^verbatim>\<open>calculate_weights_with_cap\<close> raises one error only, the
  \<^verbatim>\<open>ValueError\<close> "Total market cap is zero", and raises it exactly when the market
  capitalisations sum to zero; the empty list is such an input. The cap is not validated.
  The empty list is reported as empty ("Fund data is empty") by
  \<^verbatim>\<open>replicate_index_fund\<close>, before the weights are computed.
\<close>

theorem calculate_weights_with_cap_errors:
  "(calculate_weights_with_cap equities cap_percentage = Inl e
      \<longleftrightarrow> e = TotalMarketCapZero \<and> total_market_cap equities = 0)
   \<and> calculate_weights_with_cap [] cap_percentage = Inl TotalMarketCapZero
   \<and> replicate_index_fund [] investment_amount transaction_cost_rate cap_percentage
        = Inl FundDataEmpty"
proof (cases "total_market_cap equities = 0")
  case True
  then show ?thesis
    by (auto simp: calculate_weights_with_cap_def total_market_cap_def replicate_index_fund_def)
next
  case False
  then show ?thesis
    by (auto simp: calculate_weights_with_cap_eq replicate_index_fund_def)
       (simp add: calculate_weights_with_cap_def total_market_cap_def)
qed

theorem calculate_weights_with_cap_errors_witness:
  "calculate_weights_with_cap [\<lparr>ticker = ''Z'', market_cap = 0, price = 5\<rparr>] (1/2)
     = Inl TotalMarketCapZero
   \<and> calculate_weights_with_cap [\<lparr>ticker = ''X'', market_cap = 100, price = 20\<rparr>] (1/2)
     \<noteq> Inl TotalMarketCapZero"
  using calculate_weights_with_cap_errors
          [of "[\<lparr>ticker = ''Z'', market_cap = 0, price = 5\<rparr>]" "1/2" TotalMarketCapZero]
        calculate_weights_with_cap_errors
          [of "[\<lparr>ticker = ''X'', market_cap = 100, price = 20\<rparr>]" "1/2" TotalMarketCapZero]
  by (simp add: total_market_cap_def)

subsection \<open>The range of the weights\<close>

text \<open>
  Claim C2. For a non-empty equity list with non-negative market capitalisations, positive
  total and a cap in \<open>(0, 1]\<close>, \<^verbatim>\<open>calculate_weights_with_cap\<close> returns weights that all
  lie in \<open>[0, cap]\<close>, and every ticker of the result is a ticker of the input.
\<close>

theorem weights_within_cap:
  assumes "equities \<noteq> []" and "\<forall>e\<in>set equities. 0 \<le> market_cap e"
    and "0 < total_market_cap equities" and "0 < cap_percentage" and "cap_percentage \<le> 1"
  shows "\<exists>weights. calculate_weights_with_cap equities cap_percentage = Inr weights
           \<and> (\<forall>(t, w)\<in>set weights.
                 0 \<le> w \<and> w \<le> cap_percentage \<and> t \<in> ticker ` set equities)"
proof -
  let ?iw = "initial_weights equities"
  let ?ws = "map (\<lambda>(t, w). (t, final_weight ?iw cap_percentage w)) ?iw"
  have "0 \<le> x \<and> x \<le> cap_percentage \<and> t \<in> ticker ` set equities" if "(t, x) \<in> set ?ws" for t x
  proof -
    from that obtain w where w: "(t, w) \<in> set ?iw" "x = final_weight ?iw cap_percentage w"
      by auto
    have "0 \<le> w" using assms(2,3) w(1) by (rule initial_weights_nonneg)
    moreover have "t \<in> ticker ` set equities"
      using w(1) initial_weights_keys[of equities] by force
    ultimately show ?thesis
      using final_weight_range[of w cap_percentage ?iw] assms(4) w(2) by simp
  qed
  then have "\<forall>(t, w)\<in>set ?ws. 0 \<le> w \<and> w \<le> cap_percentage \<and> t \<in> ticker ` set equities"
    by blast
  then show ?thesis using assms(3) by (simp only: calculate_weights_with_cap_eq) blast
qed

theorem weights_within_cap_witness:
  "[\<lparr>ticker = ''A'', market_cap = 1, price = 1\<rparr>, \<lparr>ticker = ''B'', market_cap = 1, price = 1\<rparr>,
    \<lparr>ticker = ''C'', market_cap = 6, price = 1\<rparr>] \<noteq> []
   \<and> 0 < total_market_cap [\<lparr>ticker = ''A'', market_cap = 1, price = 1\<rparr>,
                            \<lparr>ticker = ''B'', market_cap = 1, price = 1\<rparr>,
                            \<lparr>ticker = ''C'', market_cap = 6, price = 1\<rparr>]
   \<and> (0::real) < 1/2 \<and> (1/2::real) \<le> 1
   \<and> (\<exists>weights. calculate_weights_with_cap
                   [\<lparr>ticker = ''A'', market_cap = 1, price = 1\<rparr>,
                    \<lparr>ticker = ''B'', market_cap = 1, price = 1\<rparr>,
                    \<lparr>ticker = ''C'', market_cap = 6, price = 1\<rparr>] (1/2) = Inr weights
          \<and> (\<forall>(t, w)\<in>set weights. 0 \<le> w \<and> w \<le> 1/2
                 \<and> t \<in> ticker ` set [\<lparr>ticker = ''A'', market_cap = 1, price = 1\<rparr>,
                                      \<lparr>ticker = ''B'', market_cap = 1, price = 1\<rparr>,
                                      \<lparr>ticker = ''C'', market_cap = 6, price = 1\<rparr>]))"
  using weights_within_cap
          [of "[\<lparr>ticker = ''A'', market_cap = 1, price = 1\<rparr>,
                \<lparr>ticker = ''B'', market_cap = 1, price = 1\<rparr>,
                \<lparr>ticker = ''C'', market_cap = 6, price = 1\<rparr>]" "1/2"]
  by (simp add: total_market_cap_def)

subsection \<open>The sum of the weights\<close>




text \<open>
  Claim C1, as stated, fails. For the single equity \<open>X\<close> and cap 0.5 nothing is
  redistributed, so no clamp after redistribution reduces a weight, and the weights sum to
  0.5: with no ticker at or below the cap (or with such tickers of total weight zero) the
  guards of lines 79 and 85 drop the excess. With a ticker listed twice the dict keeps one
  entry for it, and the weights sum to less than 1 as well.
\<close>

theorem weights_sum_below_one:
  "total_market_cap [\<lparr>ticker = ''X'', market_cap = 100, price = 20\<rparr>] = 100
   \<and> calculate_weights_with_cap [\<lparr>ticker = ''X'', market_cap = 100, price = 20\<rparr>] (1/2)
       = Inr [(''X'', 1/2)]
   \<and> sum_list (map snd [(''X'', 1/2 :: real)]) = 1/2
   \<and> total_market_cap [\<lparr>ticker = ''A'', market_cap = 1, price = 1\<rparr>,
                        \<lparr>ticker = ''A'', market_cap = 1, price = 1\<rparr>] = 2
   \<and> calculate_weights_with_cap [\<lparr>ticker = ''A'', market_cap = 1, price = 1\<rparr>,
                                  \<lparr>ticker = ''A'', market_cap = 1, price = 1\<rparr>] 1
       = Inr [(''A'', 1/2)]"
  by (simp add: calculate_weights_with_cap_def total_market_cap_def initial_weights_def
      dict_of_def dict_get_def)

text \<open>
  Claim C1, amended. For an equity list with pairwise distinct tickers and positive total
  market capitalisation, in which no redistributed weight exceeds the cap and in which,
  whenever some initial weight exceeds the cap, the tickers at or below the cap have a
  positive total initial weight, the returned weights sum to exactly 1.
\<close>

theorem weights_sum_to_one:
  assumes "distinct (map ticker equities)" and "0 < total_market_cap equities"
    and "\<forall>(t, w)\<in>set (initial_weights equities). w \<le> cap_percentage \<longrightarrow>
           w + excess_of (initial_weights equities) cap_percentage
                 * (w / under_total (initial_weights equities) cap_percentage)
             \<le> cap_percentage"
    and "0 < excess_of (initial_weights equities) cap_percentage \<longrightarrow>
           0 < under_total (initial_weights equities) cap_percentage"
  shows "\<exists>weights. calculate_weights_with_cap equities cap_percentage = Inr weights
           \<and> sum_list (map snd weights) = 1"
proof -
  let ?iw = "initial_weights equities"
  have "sum_list (map snd (map (\<lambda>(t, w). (t, final_weight ?iw cap_percentage w)) ?iw))
          = (\<Sum>(t, w)\<leftarrow>?iw. final_weight ?iw cap_percentage w)"
    by (rule sum_map_final)
  also have "\<dots> = sum_list (map snd ?iw)"
    using assms(3,4) by (intro sum_final_weight_eq) auto
  also have "\<dots> = 1" using assms(1,2) by (intro initial_weights_sum_eq) auto
  finally show ?thesis using assms(2) by (simp add: calculate_weights_with_cap_eq)
qed

theorem weights_sum_to_one_witness:
  "distinct (map ticker [\<lparr>ticker = ''A'', market_cap = 1, price = 1\<rparr>,
                         \<lparr>ticker = ''B'', market_cap = 1, price = 1\<rparr>,
                         \<lparr>ticker = ''C'', market_cap = 6, price = 1\<rparr>])
   \<and> initial_weights [\<lparr>ticker = ''A'', market_cap = 1, price = 1\<rparr>,
                       \<lparr>ticker = ''B'', market_cap = 1, price = 1\<rparr>,
                       \<lparr>ticker = ''C'', market_cap = 6, price = 1\<rparr>]
       = [(''A'', 1/8), (''B'', 1/8), (''C'', 3/4)]
   \<and> excess_of [(''A'', 1/8), (''B'', 1/8), (''C'', 3/4)] (1/2) = 1/4
   \<and> under_total [(''A'', 1/8), (''B'', 1/8), (''C'', 3/4)] (1/2) = 1/4
   \<and> (\<exists>weights. calculate_weights_with_cap
                   [\<lparr>ticker = ''A'', market_cap = 1, price = 1\<rparr>,
                    \<lparr>ticker = ''B'', market_cap = 1, price = 1\<rparr>,
                    \<lparr>ticker = ''C'', market_cap = 6, price = 1\<rparr>] (1/2) = Inr weights
          \<and> sum_list (map snd weights) = 1)"
proof -
  let ?es = "[\<lparr>ticker = ''A'', market_cap = 1, price = 1\<rparr>,
              \<lparr>ticker = ''B'', market_cap = 1, price = 1\<rparr>,
              \<lparr>ticker = ''C'', market_cap = 6, price = 1\<rparr>]"
  have iw: "initial_weights ?es = [(''A'', 1/8), (''B'', 1/8), (''C'', 3/4)]"
    by (simp add: initial_weights_def total_market_cap_def dict_of_def)
  have ex: "excess_of [(''A'', 1/8), (''B'', 1/8), (''C'', 3/4)] (1/2) = 1/4"
    by (simp add: excess_of_def)
  have ut: "under_total [(''A'', 1/8), (''B'', 1/8), (''C'', 3/4)] (1/2) = 1/4"
    by (simp add: under_total_def)
  have "\<exists>weights. calculate_weights_with_cap ?es (1/2) = Inr weights
          \<and> sum_list (map snd weights) = 1"
    using weights_sum_to_one[of ?es "1/2"] by (simp add: iw ex ut) (simp add: total_market_cap_def)
  then show ?thesis using iw ex ut by simp
qed

subsection \<open>Lowering the cap\<close>

text \<open>
  Claim C6, as stated, fails. With initial weights \<open>A = B = 1/8\<close> and \<open>C = 3/4\<close>, ticker
  \<open>A\<close> is below the cap 1/2 and receives weight 1/4; under the lower cap 3/8 more excess
  is redistributed and \<open>A\<close> receives 5/16.
\<close>

theorem lower_cap_raises_weight:
  "initial_weights [\<lparr>ticker = ''A'', market_cap = 1, price = 1\<rparr>,
                    \<lparr>ticker = ''B'', market_cap = 1, price = 1\<rparr>,
                    \<lparr>ticker = ''C'', market_cap = 6, price = 1\<rparr>]
     = [(''A'', 1/8), (''B'', 1/8), (''C'', 3/4)]
   \<and> calculate_weights_with_cap [\<lparr>ticker = ''A'', market_cap = 1, price = 1\<rparr>,
                                  \<lparr>ticker = ''B'', market_cap = 1, price = 1\<rparr>,
                                  \<lparr>ticker = ''C'', market_cap = 6, price = 1\<rparr>] (1/2)
       = Inr [(''A'', 1/4), (''B'', 1/4), (''C'', 1/2)]
   \<and> calculate_weights_with_cap [\<lparr>ticker = ''A'', market_cap = 1, price = 1\<rparr>,
                                  \<lparr>ticker = ''B'', market_cap = 1, price = 1\<rparr>,
                                  \<lparr>ticker = ''C'', market_cap = 6, price = 1\<rparr>] (3/8)
       = Inr [(''A'', 5/16), (''B'', 5/16), (''C'', 3/8)]
   \<and> (1/8 :: real) \<le> 1/2 \<and> (3/8 :: real) < 1/2 \<and> (1/4 :: real) < 5/16"
  by (simp add: calculate_weights_with_cap_def total_market_cap_def initial_weights_def
      dict_of_def dict_get_def)

text \<open>
  Claim C6, amended. For non-negative market capitalisations with positive total, caps
  \<open>c' < c\<close> and a ticker whose initial weight \<open>w\<close> satisfies \<open>c' < w \<le> c\<close> (uncapped
  under \<open>c\<close>, capped under \<open>c'\<close>), the weight of the ticker under \<open>c'\<close> is \<open>c'\<close> and is
  at most its weight under \<open>c\<close>.
\<close>

theorem lower_cap_caps_ticker:
  assumes "\<forall>e\<in>set equities. 0 \<le> market_cap e" and "0 < total_market_cap equities"
    and "c' < c" and "(t, w) \<in> set (initial_weights equities)" and "c' < w" and "w \<le> c"
  shows "\<exists>weights weights' x x'.
           calculate_weights_with_cap equities c = Inr weights
           \<and> calculate_weights_with_cap equities c' = Inr weights'
           \<and> dict_get weights t = Inr x \<and> dict_get weights' t = Inr x'
           \<and> x' = c' \<and> x' \<le> x"
proof -
  let ?iw = "initial_weights equities"
  have d: "distinct (map fst ?iw)" by (rule initial_weights_distinct)
  have w0: "0 \<le> w" using assms(1,2,4) by (rule initial_weights_nonneg)
  have x: "dict_get (map (\<lambda>(t, w). (t, final_weight ?iw c w)) ?iw) t = Inr (final_weight ?iw c w)"
    using d assms(4) by (rule dict_get_map_val)
  have x': "dict_get (map (\<lambda>(t, w). (t, final_weight ?iw c' w)) ?iw) t
              = Inr (final_weight ?iw c' w)"
    using d assms(4) by (rule dict_get_map_val)
  have lo: "final_weight ?iw c' w = c'" using assms(5) by (rule final_weight_over)
  have hi: "w \<le> final_weight ?iw c w" using w0 assms(6) by (rule final_weight_ge)
  have "final_weight ?iw c' w \<le> final_weight ?iw c w" using lo hi assms(5) by simp
  then show ?thesis
    using assms(2) x x' lo by (simp add: calculate_weights_with_cap_eq)
qed

theorem lower_cap_caps_ticker_witness:
  "0 < total_market_cap [\<lparr>ticker = ''A'', market_cap = 1, price = 1\<rparr>,
                            \<lparr>ticker = ''B'', market_cap = 1, price = 1\<rparr>,
                            \<lparr>ticker = ''C'', market_cap = 2, price = 1\<rparr>]
   \<and> (''C'', 1/2) \<in> set (initial_weights [\<lparr>ticker = ''A'', market_cap = 1, price = 1\<rparr>,
                                             \<lparr>ticker = ''B'', market_cap = 1, price = 1\<rparr>,
                                             \<lparr>ticker = ''C'', market_cap = 2, price = 1\<rparr>])
   \<and> (3/8 :: real) < 1/2
   \<and> (\<exists>weights weights' x x'.
         calculate_weights_with_cap [\<lparr>ticker = ''A'', market_cap = 1, price = 1\<rparr>,
                                     \<lparr>ticker = ''B'', market_cap = 1, price = 1\<rparr>,
                                     \<lparr>ticker = ''C'', market_cap = 2, price = 1\<rparr>] (1/2)
           = Inr weights
         \<and> calculate_weights_with_cap [\<lparr>ticker = ''A'', market_cap = 1, price = 1\<rparr>,
                                       \<lparr>ticker = ''B'', market_cap = 1, price = 1\<rparr>,
                                       \<lparr>ticker = ''C'', market_cap = 2, price = 1\<rparr>] (3/8)
           = Inr weights'
         \<and> dict_get weights ''C'' = Inr x \<and> dict_get weights' ''C'' = Inr x'
         \<and> x' = 3/8 \<and> x' \<le> x)"
proof -
  let ?es = "[\<lparr>ticker = ''A'', market_cap = 1, price = 1\<rparr>,
              \<lparr>ticker = ''B'', market_cap = 1, price = 1\<rparr>,
              \<lparr>ticker = ''C'', market_cap = 2, price = 1\<rparr>]"
  have iw: "initial_weights ?es = [(''A'', 1/4), (''B'', 1/4), (''C'', 1/2)]"
    by (simp add: initial_weights_def total_market_cap_def dict_of_def)
  have tot: "0 < total_market_cap ?es" by (simp add: total_market_cap_def)
  have mem: "(''C'', 1/2) \<in> set (initial_weights ?es)" by (simp add: iw)
  have nn: "\<forall>e\<in>set ?es. 0 \<le> market_cap e" by simp
  show ?thesis
    using lower_cap_caps_ticker[OF nn tot _ mem, of "3/8" "1/2"] tot mem by simp
qed

subsection \<open>Share counts and costs\<close>







subsection \<open>Errors of \<^verbatim>\<open>calculate_shares\<close>\<close>

text \<open>
  Claim C8. A budget that is not positive raises "Investment amount must be positive"
  before anything else is computed. With a positive budget, a non-negative fee rate and a
  weight map that was computed, a ticker of the weight map whose price is not positive
  makes the call raise "Invalid price" for a ticker of the weight map whose price is not
  positive (the first one in the order of the weight map, see \<open>allocate_invalid_price\<close>).
  In both cases the result is the error alone: the type \<open>error + _\<close> has no room for a
  partial allocation.
\<close>

theorem calculate_shares_validation:
  "(investment_amount \<le> 0 \<longrightarrow>
      calculate_shares equities investment_amount transaction_cost_rate cap_percentage
        = Inl InvestmentNotPositive)
   \<and> (0 < investment_amount \<and> 0 \<le> transaction_cost_rate
        \<and> calculate_weights_with_cap equities cap_percentage = Inr weights
        \<and> (t, w) \<in> set weights \<and> dict_get (equity_dict equities) t = Inr equity
        \<and> price equity \<le> 0 \<longrightarrow>
      (\<exists>t' equity'.
          calculate_shares equities investment_amount transaction_cost_rate cap_percentage
            = Inl (InvalidPrice t' (price equity'))
          \<and> t' \<in> fst ` set weights
          \<and> dict_get (equity_dict equities) t' = Inr equity'
          \<and> price equity' \<le> 0))"
proof (intro conjI impI)
  assume "investment_amount \<le> 0"
  then show "calculate_shares equities investment_amount transaction_cost_rate cap_percentage
               = Inl InvestmentNotPositive"
    by (simp add: calculate_shares_def)
next
  let ?ed = "equity_dict equities"
  assume h: "0 < investment_amount \<and> 0 \<le> transaction_cost_rate
        \<and> calculate_weights_with_cap equities cap_percentage = Inr weights
        \<and> (t, w) \<in> set weights \<and> dict_get (equity_dict equities) t = Inr equity
        \<and> price equity \<le> 0"
  then have ws: "calculate_weights_with_cap equities cap_percentage = Inr weights"
    and mem: "(t, w) \<in> set weights" and a: "0 < investment_amount"
    and nz: "1 + transaction_cost_rate \<noteq> 0" by auto
  from h have "map_of ?ed t = Some equity" "price equity \<le> 0"
    by (auto simp: dict_get_def split: option.splits)
  then have bad: "price_of ?ed t \<le> 0" by (simp add: price_of_def)
  have present: "\<forall>(t, w)\<in>set weights. \<exists>e. map_of ?ed t = Some e"
    using weights_present[OF ws] by blast
  have "\<exists>x\<in>set weights. (\<lambda>(t, w). price_of ?ed t \<le> 0) x" using mem bad by blast
  then obtain t' w' where f: "find (\<lambda>(t, w). price_of ?ed t \<le> 0) weights = Some (t', w')"
    by (cases "find (\<lambda>(t, w). price_of ?ed t \<le> 0) weights") (auto simp: find_None_iff)
  have mem': "(t', w') \<in> set weights" and bad': "price_of ?ed t' \<le> 0"
    using find_Some_member[OF f] by auto
  from present mem' obtain e' where e': "map_of ?ed t' = Some e'" by blast
  have p: "price_of ?ed t' = price e'" by (simp add: price_of_def e')
  have "allocate weights ?ed investment_amount transaction_cost_rate ([], 0)
          = Inl (InvalidPrice t' (price e'))"
    using allocate_invalid_price[OF present nz f] by (simp add: p)
  then have "calculate_shares equities investment_amount transaction_cost_rate cap_percentage
               = Inl (InvalidPrice t' (price e'))"
    using a ws by (simp add: calculate_shares_def)
  moreover have "t' \<in> fst ` set weights" using mem' by force
  moreover have "dict_get ?ed t' = Inr e'" by (simp add: dict_get_def e')
  moreover have "price e' \<le> 0" using bad' p by simp
  ultimately show "\<exists>t' equity'.
          calculate_shares equities investment_amount transaction_cost_rate cap_percentage
            = Inl (InvalidPrice t' (price equity'))
          \<and> t' \<in> fst ` set weights
          \<and> dict_get (equity_dict equities) t' = Inr equity'
          \<and> price equity' \<le> 0"
    by blast
qed

theorem calculate_shares_validation_witness:
  "calculate_shares [\<lparr>ticker = ''X'', market_cap = 100, price = 20\<rparr>] 0 (3/100) (1/2)
     = Inl InvestmentNotPositive
   \<and> (\<exists>t' equity'.
         calculate_shares [\<lparr>ticker = ''A'', market_cap = 1000, price = 10\<rparr>,
                           \<lparr>ticker = ''B'', market_cap = 9000, price = 0\<rparr>] 1000 (3/100) (1/2)
           = Inl (InvalidPrice t' (price equity'))
         \<and> dict_get (equity_dict [\<lparr>ticker = ''A'', market_cap = 1000, price = 10\<rparr>,
                                   \<lparr>ticker = ''B'', market_cap = 9000, price = 0\<rparr>]) t'
             = Inr equity'
         \<and> price equity' \<le> 0)"
proof -
  let ?es = "[\<lparr>ticker = ''A'', market_cap = 1000, price = 10\<rparr>,
              \<lparr>ticker = ''B'', market_cap = 9000, price = 0\<rparr>]"
  have ws: "calculate_weights_with_cap ?es (1/2) = Inr [(''A'', 1/2), (''B'', 1/2)]"
    by (simp add: calculate_weights_with_cap_def total_market_cap_def initial_weights_def
        dict_of_def dict_get_def)
  have ed: "dict_get (equity_dict ?es) ''B'' = Inr \<lparr>ticker = ''B'', market_cap = 9000, price = 0\<rparr>"
    by (simp add: equity_dict_def dict_of_def dict_get_def)
  have first: "calculate_shares [\<lparr>ticker = ''X'', market_cap = 100, price = 20\<rparr>] 0 (3/100) (1/2)
                 = Inl InvestmentNotPositive"
    using calculate_shares_validation
            [of 0 "[\<lparr>ticker = ''X'', market_cap = 100, price = 20\<rparr>]" "3/100" "1/2"]
    by simp
  have second: "\<exists>t' equity'.
         calculate_shares ?es 1000 (3/100) (1/2) = Inl (InvalidPrice t' (price equity'))
         \<and> t' \<in> fst ` set [(''A'', 1/2 :: real), (''B'', 1/2)]
         \<and> dict_get (equity_dict ?es) t' = Inr equity'
         \<and> price equity' \<le> 0"
    using calculate_shares_validation
            [of 1000 ?es "3/100" "1/2" "[(''A'', 1/2), (''B'', 1/2)]" "''B''" "1/2"
                "\<lparr>ticker = ''B'', market_cap = 9000, price = 0\<rparr>"] ws ed
    by simp
  from first second show ?thesis by blast
qed

end
